theory Spec2Isabelle
  imports Complex_Main
begin

section \<open>Python values used by the agent\<close>

text \<open>
  A Python float is a finite number, an infinity or NaN. Finite values are kept as exact
  reals: the embedding abstracts from binary rounding (a reply \<open>0.85\<close> and the literal
  \<open>0.85\<close> of the source are the same number here, as they are the same double there),
  but it keeps the comparison rules of NaN and the infinities, which decide what
  \<open>min\<close>, \<open>max\<close> and \<open>>=\<close> return.
\<close>

datatype pyfloat = Fin real | PosInf | NegInf | NaN

fun f_lt :: "pyfloat \<Rightarrow> pyfloat \<Rightarrow> bool" where
  "f_lt (Fin a) (Fin b) = (a < b)"
| "f_lt (Fin a) PosInf = True"
| "f_lt NegInf (Fin b) = True"
| "f_lt NegInf PosInf = True"
| "f_lt _ _ = False"

fun f_ge :: "pyfloat \<Rightarrow> pyfloat \<Rightarrow> bool" where
  "f_ge (Fin a) (Fin b) = (b \<le> a)"
| "f_ge PosInf (Fin b) = True"
| "f_ge PosInf PosInf = True"
| "f_ge PosInf NegInf = True"
| "f_ge (Fin a) NegInf = True"
| "f_ge NegInf NegInf = True"
| "f_ge _ _ = False"

text \<open>Python's two-argument \<open>min(a, b)\<close> and \<open>max(a, b)\<close>: the first argument is kept
  unless the second is strictly smaller (resp. larger).\<close>

definition py_min :: "pyfloat \<Rightarrow> pyfloat \<Rightarrow> pyfloat" where
  "py_min a b = (if f_lt b a then b else a)"

definition py_max :: "pyfloat \<Rightarrow> pyfloat \<Rightarrow> pyfloat" where
  "py_max a b = (if f_lt a b then b else a)"

text \<open>\<open>d.get(key, default)\<close> on a dict whose key may be absent.\<close>

definition get_or :: "'a \<Rightarrow> 'a option \<Rightarrow> 'a" where
  "get_or d v = (case v of None \<Rightarrow> d | Some x \<Rightarrow> x)"

text \<open>\<open>text or default\<close> on an optional string: \<open>None\<close> and the empty string are falsy.\<close>

definition str_or :: "string option \<Rightarrow> string \<Rightarrow> string" where
  "str_or v d = (case v of None \<Rightarrow> d | Some t \<Rightarrow> (if t = [] then d else t))"

text \<open>\<open>sep.join(parts)\<close>.\<close>

fun join :: "string \<Rightarrow> string list \<Rightarrow> string" where
  "join sep [] = []"
| "join sep [x] = x"
| "join sep (x # y # xs) = x @ sep @ join sep (y # xs)"

text \<open>\<open>str(n)\<close> for a length, as the f-string of the critic formats it.\<close>

definition digit :: "nat \<Rightarrow> char" where
  "digit d = ''0123456789'' ! (d mod 10)"

fun show_nat :: "nat \<Rightarrow> string" where
  "show_nat n = (if n < 10 then [digit n] else show_nat (n div 10) @ [digit (n mod 10)])"

declare show_nat.simps [simp del]

text \<open>\<open>s.startswith(p)\<close>.\<close>

fun startswith :: "string \<Rightarrow> string \<Rightarrow> bool" where
  "startswith s [] = True"
| "startswith [] (p # ps) = False"
| "startswith (c # cs) (p # ps) = (c = p \<and> startswith cs ps)"


section \<open>The execution state (app/state.py)\<close>

text \<open>
  \<open>tokens_used\<close> is a dict from node name to tokens: an association list in insertion
  order. \<open>dict_get\<close> is \<open>d.get(k, default)\<close> and \<open>dict_set\<close> is \<open>d[k] = v\<close>, which
  overwrites in place or appends a new key.
\<close>

type_synonym ledger = "(string \<times> int) list"

fun dict_get :: "ledger \<Rightarrow> string \<Rightarrow> int \<Rightarrow> int" where
  "dict_get [] k d = d"
| "dict_get ((k', v) # xs) k d = (if k' = k then v else dict_get xs k d)"

fun dict_set :: "ledger \<Rightarrow> string \<Rightarrow> int \<Rightarrow> ledger" where
  "dict_set [] k v = [(k, v)]"
| "dict_set ((k', v') # xs) k v =
     (if k' = k then (k, v) # xs else (k', v') # dict_set xs k v)"

text \<open>\<open>sum(d.values())\<close>.\<close>

definition sum_values :: "ledger \<Rightarrow> int" where
  "sum_values d = sum_list (map snd d)"

text \<open>
  \<open>AgentState\<close> is a \<open>TypedDict\<close> with \<open>total=False\<close>: every key may be absent, and the
  nodes read it with \<open>state.get(key, default)\<close>. A field is \<open>None\<close> when its key is
  absent; \<open>state[key] = v\<close> makes it \<open>Some v\<close>.
\<close>

record AgentState =
  user_query :: "string option"
  plan :: "string option"
  retrieved_chunks :: "string list option"
  draft_answer :: "string option"
  final_answer :: "string option"
  total_token_budget :: "int option"
  remaining_tokens :: "int option"
  tokens_used :: "ledger option"
  step_count :: "int option"
  max_steps :: "int option"
  quality_score :: "pyfloat option"
  status :: "string option"

definition initialize_state :: "string \<Rightarrow> int \<Rightarrow> int \<Rightarrow> AgentState" where
  "initialize_state q budget steps =
     \<lparr> user_query = Some q,
       plan = Some [],
       retrieved_chunks = Some [],
       draft_answer = Some [],
       final_answer = Some [],
       total_token_budget = Some budget,
       remaining_tokens = Some budget,
       tokens_used = Some [],
       step_count = Some 0,
       max_steps = Some steps,
       quality_score = Some (Fin 0),
       status = Some ''INIT'' \<rparr>"


section \<open>Token accounting (app/token_accounting.py)\<close>

text \<open>
  \<open>consume_tokens\<close> mutates the state dict and returns it; here it returns the updated
  record. \<open>state.get("tokens_used") or {}\<close> starts from the empty dict when the key is
  absent (an empty dict is falsy too, and is replaced by an equal one).
\<close>

definition consume_tokens :: "AgentState \<Rightarrow> string \<Rightarrow> int \<Rightarrow> AgentState" where
  "consume_tokens state node_name estimated_tokens =
     (let remaining = get_or 0 (remaining_tokens state);
          remaining' = remaining - max 0 estimated_tokens;
          state' = state\<lparr>remaining_tokens := Some (max remaining' 0)\<rparr>;
          used = get_or [] (tokens_used state');
          prev = dict_get used node_name 0;
          used' = dict_set used node_name (prev + max 0 estimated_tokens)
      in state'\<lparr>tokens_used := Some used'\<rparr>)"

text \<open>Readers used in the statements below: the value a node sees through \<open>.get\<close>.\<close>

definition remaining_of :: "AgentState \<Rightarrow> int" where
  "remaining_of s = get_or 0 (remaining_tokens s)"

definition used_of :: "AgentState \<Rightarrow> string \<Rightarrow> int" where
  "used_of s k = dict_get (get_or [] (tokens_used s)) k 0"

definition steps_of :: "AgentState \<Rightarrow> int" where
  "steps_of s = get_or 0 (step_count s)"


section \<open>The external collaborators\<close>

text \<open>
  The hosted completion service, the embedding service, the vector index, the tokenizer
  and the JSON and float parsers of the standard library are not code of the
  repository. They are taken as arbitrary functions, carried in a \<open>world\<close> together
  with a log of every call made to a service. A reply may depend on the request and on
  how many calls came before it, so the same request may be answered differently on a
  retry. The embedding covers the executions in which each service call returns a reply;
  the exceptions raised by the program's own handling of a reply are modelled.
\<close>

datatype pyerror =
  JSONDecodeError | ValueError | TypeError | AttributeError | OverflowError | GraphRecursionError

datatype json =
    JNull
  | JBool bool
  | JInt int
  | JFloat pyfloat
  | JStr string
  | JArr "json list"
  | JObj "(string \<times> json) list"

record llm_request =
  req_system :: string
  req_user :: string
  req_max_tokens :: nat
  req_temperature :: real

record completion_usage =
  prompt_tokens :: int
  completion_tokens :: int

text \<open>\<open>response.choices[0].message.content\<close> (possibly \<open>None\<close>) and \<open>response.usage\<close>
  (possibly \<open>None\<close>).\<close>

record llm_response =
  resp_content :: "string option"
  resp_usage :: "completion_usage option"

record world =
  llm_reply :: "nat \<Rightarrow> llm_request \<Rightarrow> llm_response"
  embedding_reply :: "nat \<Rightarrow> string \<Rightarrow> real list"
  index_reply :: "nat \<Rightarrow> real list \<Rightarrow> int \<Rightarrow> string list"
  tokenizer :: "string \<Rightarrow> nat"
  json_loads :: "string \<Rightarrow> pyerror + json"
  str_to_float :: "string \<Rightarrow> pyfloat option"
  llm_log :: "llm_request list"
  embed_log :: "string list"
  index_log :: "int list"
  search_log :: "(string \<times> int) list"

text \<open>\<open>client.chat.completions.create(...)\<close>: the call is logged and the reply is the
  service's answer to this request at this point of the execution.\<close>

definition chat_completion :: "world \<Rightarrow> llm_request \<Rightarrow> world \<times> llm_response" where
  "chat_completion w req =
     (w\<lparr>llm_log := llm_log w @ [req]\<rparr>, llm_reply w (length (llm_log w)) req)"

text \<open>\<open>estimate_tokens\<close> (app/token_accounting.py): zero for the empty text, else the
  number of tokens the encoder produces.\<close>

definition estimate_tokens :: "world \<Rightarrow> string \<Rightarrow> int" where
  "estimate_tokens w text = (if text = [] then 0 else int (tokenizer w text))"

text \<open>\<open>embed_query\<close> (app/rag/embeddings.py).\<close>

definition embed_query :: "world \<Rightarrow> string \<Rightarrow> world \<times> real list" where
  "embed_query w text =
     (if text = [] then (w, [])
      else (w\<lparr>embed_log := embed_log w @ [text]\<rparr>,
            embedding_reply w (length (embed_log w)) text))"

text \<open>\<open>ChromaVectorStore.similarity_search\<close> (app/rag/vector_store.py). Each call is
  logged with the \<open>k\<close> it asks for; the index itself is queried only for a non-empty
  query with a non-empty embedding, and that query is logged with its \<open>n_results\<close>.\<close>

definition similarity_search :: "world \<Rightarrow> string \<Rightarrow> int \<Rightarrow> world \<times> string list" where
  "similarity_search w0 query k =
     (let w = w0\<lparr>search_log := search_log w0 @ [(query, k)]\<rparr>
      in if query = [] then (w, [])
         else (let (w1, query_embedding) = embed_query w query
               in if query_embedding = [] then (w1, [])
                  else (w1\<lparr>index_log := index_log w1 @ [k]\<rparr>,
                        index_reply w1 (length (index_log w1)) query_embedding k)))"

text \<open>The token total a node charges: the usage the service reports, else an estimate
  over the given text.\<close>

definition charged_tokens :: "world \<Rightarrow> llm_response \<Rightarrow> string \<Rightarrow> int" where
  "charged_tokens w response text =
     (case resp_usage response of
        Some usage \<Rightarrow> prompt_tokens usage + completion_tokens usage
      | None \<Rightarrow> estimate_tokens w text)"


section \<open>The nodes (app/nodes)\<close>

subsection \<open>Planner (app/nodes/planner.py)\<close>

definition PLANNER_REQUIRED_BUDGET :: int where
  "PLANNER_REQUIRED_BUDGET = 800"

definition PLANNER_SYSTEM_PROMPT :: string where
  \<open>PLANNER_SYSTEM_PROMPT =
     ''You are a concise planning assistant.\<newline>'' @
     ''Given a user query, produce a brief execution plan (2-4 steps) for answering it.\<newline>'' @
     ''Keep your plan under 150 words. Be direct and actionable.''\<close>

definition planner_node :: "world \<Rightarrow> AgentState \<Rightarrow> world \<times> AgentState" where
  "planner_node w state =
     (if get_or 0 (remaining_tokens state) < PLANNER_REQUIRED_BUDGET
      then (w, state\<lparr>status := Some ''INSUFFICIENT_BUDGET_FOR_PLANNING''\<rparr>)
      else
        (let query = get_or [] (user_query state);
             (w1, response) = chat_completion w
                \<lparr> req_system = PLANNER_SYSTEM_PROMPT,
                  req_user = ''Create a plan to answer: '' @ query,
                  req_max_tokens = 300,
                  req_temperature = 0.3 \<rparr>;
             plan_text = str_or (resp_content response) [];
             state1 = state\<lparr>plan := Some plan_text\<rparr>;
             total_tokens = charged_tokens w1 response
                (PLANNER_SYSTEM_PROMPT @ query @ plan_text);
             state2 = consume_tokens state1 ''planner'' total_tokens
         in (w1, state2\<lparr>step_count := Some (get_or 0 (step_count state2) + 1)\<rparr>)))"

subsection \<open>Retriever (app/nodes/retriever.py)\<close>

definition MIN_GENERATION_BUDGET :: int where
  "MIN_GENERATION_BUDGET = 3000"

definition TOKENS_PER_CHUNK :: int where
  "TOKENS_PER_CHUNK = 400"

text \<open>The two assignments to \<open>top_k\<close>: \<open>max(1, available // TOKENS_PER_CHUNK)\<close>, then
  \<open>min(top_k, 10)\<close>. Python's \<open>//\<close> and HOL's \<open>div\<close> on \<open>int\<close> both round down.\<close>

definition top_k_for :: "int \<Rightarrow> int" where
  "top_k_for available_for_context =
     (let top_k = max 1 (available_for_context div TOKENS_PER_CHUNK)
      in min top_k 10)"

definition retriever_node :: "world \<Rightarrow> AgentState \<Rightarrow> world \<times> AgentState" where
  "retriever_node w state =
     (let remaining = get_or 0 (remaining_tokens state);
          available_for_context = remaining - MIN_GENERATION_BUDGET
      in if available_for_context \<le> 0
         then (w, state\<lparr>retrieved_chunks := Some []\<rparr>)
         else
           (let top_k = top_k_for available_for_context;
                query = get_or [] (user_query state);
                (w1, chunks) = similarity_search w query top_k;
                state1 = state\<lparr>retrieved_chunks := Some chunks\<rparr>;
                chunk_text = join ''\<newline>\<newline>'' chunks;
                estimated_cost = (if chunks \<noteq> [] then estimate_tokens w1 chunk_text else 0)
            in (w1, consume_tokens state1 ''retriever'' estimated_cost)))"

subsection \<open>Generator (app/nodes/generator.py)\<close>

definition GENERATOR_REQUIRED_BUDGET :: int where
  "GENERATOR_REQUIRED_BUDGET = 2500"

definition GENERATOR_SYSTEM_PROMPT :: string where
  \<open>GENERATOR_SYSTEM_PROMPT =
     ''You are a helpful assistant that answers questions based on the provided context.\<newline>'' @
     ''Use the context to give accurate, well-structured answers.\<newline>'' @
     ''If the context doesn't contain relevant information, say so clearly.\<newline>'' @
     ''Be concise but thorough.''\<close>

definition generator_message :: "string \<Rightarrow> string list \<Rightarrow> string \<Rightarrow> string" where
  \<open>generator_message plan_text chunks query =
     (let context_section =
            (if chunks \<noteq> []
             then ''## Retrieved Context\<newline>\<newline>'' @ join ''\<newline>\<newline>---\<newline>\<newline>'' chunks
             else ''No context was retrieved. Answer based on general knowledge.'')
      in ''## Plan\<newline>'' @ plan_text @ ''\<newline>\<newline>'' @ context_section @
         ''\<newline>\<newline>## Question\<newline>'' @ query @
         ''\<newline>\<newline>Please provide a comprehensive answer based on the above context and plan.'')\<close>

definition generator_node :: "world \<Rightarrow> AgentState \<Rightarrow> world \<times> AgentState" where
  "generator_node w state =
     (if get_or 0 (remaining_tokens state) < GENERATOR_REQUIRED_BUDGET
      then (w, state\<lparr>status := Some ''INSUFFICIENT_BUDGET_FOR_GENERATION''\<rparr>)
      else
        (let query = get_or [] (user_query state);
             chunks = get_or [] (retrieved_chunks state);
             plan_text = get_or [] (plan state);
             user_message = generator_message plan_text chunks query;
             (w1, response) = chat_completion w
                \<lparr> req_system = GENERATOR_SYSTEM_PROMPT,
                  req_user = user_message,
                  req_max_tokens = 1000,
                  req_temperature = 0.5 \<rparr>;
             answer_text = str_or (resp_content response) [];
             state1 = state\<lparr>draft_answer := Some answer_text\<rparr>;
             total_tokens = charged_tokens w1 response
                (GENERATOR_SYSTEM_PROMPT @ user_message @ answer_text)
         in (w1, consume_tokens state1 ''generator'' total_tokens)))"


subsection \<open>Critic (app/nodes/critic.py)\<close>

definition CRITIC_REQUIRED_BUDGET :: int where
  "CRITIC_REQUIRED_BUDGET = 800"

definition CRITIC_SYSTEM_PROMPT :: string where
  \<open>CRITIC_SYSTEM_PROMPT =
     ''You are a quality evaluator for AI-generated answers.\<newline>'' @
     ''Evaluate the answer on these criteria:\<newline>'' @
     ''1. Relevance to the question\<newline>'' @
     ''2. Accuracy based on provided context\<newline>'' @
     ''3. Completeness\<newline>'' @
     ''4. Clarity\<newline>\<newline>'' @
     ''Respond with a JSON object containing:\<newline>'' @
     ''- "score": a number between 0.0 and 1.0\<newline>'' @
     ''- "feedback": a brief explanation (1-2 sentences)\<newline>\<newline>'' @
     ''Example response:\<newline>'' @
     ''{"score": 0.85, "feedback": "Good coverage of the topic with clear explanations."}''\<close>

definition critic_message :: "string \<Rightarrow> string list \<Rightarrow> string \<Rightarrow> string" where
  \<open>critic_message query chunks draft =
     (let context_summary =
            (if chunks \<noteq> [] then show_nat (length chunks) @ '' chunks retrieved''
             else ''No context'')
      in ''## Original Question\<newline>'' @ query @
         ''\<newline>\<newline>## Context Available\<newline>'' @ context_summary @
         ''\<newline>\<newline>## Generated Answer\<newline>'' @ draft @
         ''\<newline>\<newline>Please evaluate this answer and provide a quality score.'')\<close>

text \<open>\<open>parsed.get("score", 0.7)\<close>: only a dict has \<open>get\<close>; on any other JSON value the
  attribute lookup raises \<open>AttributeError\<close>.\<close>

fun score_field :: "json \<Rightarrow> pyerror + json" where
  "score_field (JObj items) =
     Inr (case map_of items ''score'' of None \<Rightarrow> JFloat (Fin 0.7) | Some v \<Rightarrow> v)"
| "score_field _ = Inl AttributeError"

text \<open>\<open>float(v)\<close>: an int beyond the range of a double raises \<open>OverflowError\<close>, a string
  that is no float literal raises \<open>ValueError\<close>, \<open>None\<close>, a list and a dict raise
  \<open>TypeError\<close>.\<close>

fun py_float :: "world \<Rightarrow> json \<Rightarrow> pyerror + pyfloat" where
  "py_float w JNull = Inl TypeError"
| "py_float w (JBool b) = Inr (Fin (if b then 1 else 0))"
| "py_float w (JInt n) =
     (if \<bar>n\<bar> < 2 ^ 1024 - 2 ^ 970 then Inr (Fin (of_int n)) else Inl OverflowError)"
| "py_float w (JFloat f) = Inr f"
| "py_float w (JStr t) = (case str_to_float w t of None \<Rightarrow> Inl ValueError | Some f \<Rightarrow> Inr f)"
| "py_float w (JArr xs) = Inl TypeError"
| "py_float w (JObj items) = Inl TypeError"

text \<open>The body of the \<open>try\<close> block.\<close>

definition parse_score :: "world \<Rightarrow> string \<Rightarrow> pyerror + pyfloat" where
  "parse_score w critic_response =
     (case json_loads w critic_response of
        Inl e \<Rightarrow> Inl e
      | Inr parsed \<Rightarrow>
          (case score_field parsed of
             Inl e \<Rightarrow> Inl e
           | Inr v \<Rightarrow>
               (case py_float w v of
                  Inl e \<Rightarrow> Inl e
                | Inr score \<Rightarrow> Inr (py_max (Fin 0) (py_min (Fin 1) score)))))"

text \<open>\<open>except (json.JSONDecodeError, ValueError, TypeError)\<close>.\<close>

fun caught :: "pyerror \<Rightarrow> bool" where
  "caught JSONDecodeError = True"
| "caught ValueError = True"
| "caught TypeError = True"
| "caught _ = False"

definition critic_score :: "world \<Rightarrow> string \<Rightarrow> pyerror + pyfloat" where
  "critic_score w critic_response =
     (case parse_score w critic_response of
        Inl e \<Rightarrow> (if caught e then Inr (Fin 0.7) else Inl e)
      | Inr score \<Rightarrow> Inr score)"

text \<open>The node returns the world after its calls and either the new state or the
  exception that leaves the node.\<close>

definition critic_node :: "world \<Rightarrow> AgentState \<Rightarrow> world \<times> (pyerror + AgentState)" where
  "critic_node w state =
     (if get_or 0 (remaining_tokens state) < CRITIC_REQUIRED_BUDGET
      then (w, Inr (state\<lparr>quality_score := Some (Fin 0.7)\<rparr>))
      else
        (let query = get_or [] (user_query state);
             draft = get_or [] (draft_answer state);
             chunks = get_or [] (retrieved_chunks state);
             user_message = critic_message query chunks draft;
             (w1, response) = chat_completion w
                \<lparr> req_system = CRITIC_SYSTEM_PROMPT,
                  req_user = user_message,
                  req_max_tokens = 150,
                  req_temperature = 0.2 \<rparr>;
             critic_response = str_or (resp_content response) []
         in case critic_score w1 critic_response of
              Inl e \<Rightarrow> (w1, Inl e)
            | Inr score \<Rightarrow>
                (let state1 = state\<lparr>quality_score := Some score\<rparr>;
                     total_tokens = charged_tokens w1 response
                        (CRITIC_SYSTEM_PROMPT @ user_message @ critic_response)
                 in (w1, Inr (consume_tokens state1 ''critic'' total_tokens)))))"

subsection \<open>Summarizer (app/nodes/summarizer.py)\<close>

definition SUMMARIZER_BUDGET :: int where
  "SUMMARIZER_BUDGET = 400"

definition SUMMARIZER_SYSTEM_PROMPT :: string where
  \<open>SUMMARIZER_SYSTEM_PROMPT =
     ''You are a summarization assistant.\<newline>'' @
     ''Given a draft answer, produce a concise summary that captures the key points.\<newline>'' @
     ''Keep your summary under 100 words.''\<close>

definition FALLBACK_ANSWER :: string where
  "FALLBACK_ANSWER = ''Unable to generate an answer due to budget constraints.''"

definition summarizer_node :: "world \<Rightarrow> AgentState \<Rightarrow> world \<times> AgentState" where
  "summarizer_node w state =
     (let draft = get_or [] (draft_answer state);
          (w', state') =
            (if draft \<noteq> [] \<and> SUMMARIZER_BUDGET \<le> get_or 0 (remaining_tokens state)
             then
               (let (w1, response) = chat_completion w
                      \<lparr> req_system = SUMMARIZER_SYSTEM_PROMPT,
                        req_user = ''Summarize this answer:\<newline>\<newline>'' @ draft,
                        req_max_tokens = 150,
                        req_temperature = 0.3 \<rparr>;
                    summary = str_or (resp_content response) draft;
                    state1 = state\<lparr>final_answer := Some summary\<rparr>;
                    total_tokens = charged_tokens w1 response
                       (SUMMARIZER_SYSTEM_PROMPT @ draft @ summary)
                in (w1, consume_tokens state1 ''summarizer'' total_tokens))
             else if draft \<noteq> []
             then (w, state\<lparr>final_answer := Some draft\<rparr>)
             else (w, state\<lparr>final_answer := Some FALLBACK_ANSWER\<rparr>))
      in (w', state'\<lparr>status := Some ''COMPLETED_WITH_SUMMARY''\<rparr>))"


section \<open>The graph (app/graph.py)\<close>

definition BUDGET_THRESHOLD :: int where
  "BUDGET_THRESHOLD = 500"

definition QUALITY_THRESHOLD :: pyfloat where
  "QUALITY_THRESHOLD = Fin 0.85"

datatype route = RouteEnd | RouteLoop | RouteSummarize

definition should_continue :: "AgentState \<Rightarrow> route" where
  "should_continue state =
     (let remaining = get_or 0 (remaining_tokens state);
          quality = get_or (Fin 0) (quality_score state);
          steps = get_or 0 (step_count state);
          limit = get_or 5 (max_steps state);
          code = get_or [] (status state)
      in if startswith code ''INSUFFICIENT_BUDGET'' then RouteSummarize
         else if remaining \<le> BUDGET_THRESHOLD then RouteSummarize
         else if f_ge quality QUALITY_THRESHOLD then RouteEnd
         else if limit \<le> steps then RouteSummarize
         else RouteLoop)"

definition finalize_node :: "AgentState \<Rightarrow> AgentState" where
  "finalize_node state =
     state\<lparr>final_answer := Some (get_or [] (draft_answer state)),
           status := Some ''COMPLETED''\<rparr>"

text \<open>One pass along the edges planner, retriever, generator, critic of \<open>build_graph\<close>.\<close>

definition run_pass :: "world \<Rightarrow> AgentState \<Rightarrow> world \<times> (pyerror + AgentState)" where
  "run_pass w state =
     (let (w1, s1) = planner_node w state;
          (w2, s2) = retriever_node w1 s1;
          (w3, s3) = generator_node w2 s2
      in critic_node w3 s3)"

text \<open>
  The compiled graph of \<open>build_graph\<close>, node by node: the entry point is the planner; the
  edges lead from planner to retriever to generator to critic; the conditional edge after
  the critic follows \<open>should_continue\<close> to \<open>finalize\<close>, back to the planner, or to the
  summarizer; \<open>finalize\<close> and the summarizer lead to the end of the run.

  The graph library runs one node per step and allows a bounded number of steps in one
  run; when a node is due and no step is left, the run ends with
  \<open>GraphRecursionError\<close>. The number of steps allowed is the first argument: it is not
  set anywhere in the repository (\<open>graph.invoke(initial_state)\<close> in app/main.py passes no
  configuration), so the library's default applies. The result carries the world after
  the last call, the final state or the exception that ends the run, and the number of
  evaluations of \<open>should_continue\<close>.
\<close>

datatype node = Planner | Retriever | Generator | Critic | Summarizer | Finalize

fun bump :: "world \<times> (pyerror + AgentState) \<times> nat \<Rightarrow> world \<times> (pyerror + AgentState) \<times> nat" where
  "bump (w, r, n) = (w, r, Suc n)"

fun run_from :: "nat \<Rightarrow> node \<Rightarrow> world \<Rightarrow> AgentState \<Rightarrow> world \<times> (pyerror + AgentState) \<times> nat" where
  "run_from 0 nd w state = (w, Inl GraphRecursionError, 0)"
| "run_from (Suc limit) Planner w state =
     (let (w1, s1) = planner_node w state in run_from limit Retriever w1 s1)"
| "run_from (Suc limit) Retriever w state =
     (let (w1, s1) = retriever_node w state in run_from limit Generator w1 s1)"
| "run_from (Suc limit) Generator w state =
     (let (w1, s1) = generator_node w state in run_from limit Critic w1 s1)"
| "run_from (Suc limit) Critic w state =
     (case critic_node w state of
        (w1, Inl e) \<Rightarrow> (w1, Inl e, 0)
      | (w1, Inr s1) \<Rightarrow>
          (case should_continue s1 of
             RouteEnd \<Rightarrow> bump (run_from limit Finalize w1 s1)
           | RouteLoop \<Rightarrow> bump (run_from limit Planner w1 s1)
           | RouteSummarize \<Rightarrow> bump (run_from limit Summarizer w1 s1)))"
| "run_from (Suc limit) Summarizer w state =
     (let (w1, s1) = summarizer_node w state in (w1, Inr s1, 0))"
| "run_from (Suc limit) Finalize w state = (w, Inr (finalize_node state), 0)"

definition run_graph :: "nat \<Rightarrow> world \<Rightarrow> AgentState \<Rightarrow> world \<times> (pyerror + AgentState) \<times> nat" where
  "run_graph limit w state = run_from limit Planner w state"




section \<open>Operations on a state, and the vocabulary of the specification\<close>

text \<open>
  The operations that act on a state, each node with the world it runs in. An operation
  yields \<open>None\<close> when an exception leaves it (only the critic can raise), and a sequence
  of operations stops there.
\<close>

datatype operation =
    OpPlanner world
  | OpRetriever world
  | OpGenerator world
  | OpCritic world
  | OpSummarizer world
  | OpFinalize
  | OpConsume string int

fun apply_op :: "operation \<Rightarrow> AgentState \<Rightarrow> AgentState option" where
  "apply_op (OpPlanner w) s = Some (snd (planner_node w s))"
| "apply_op (OpRetriever w) s = Some (snd (retriever_node w s))"
| "apply_op (OpGenerator w) s = Some (snd (generator_node w s))"
| "apply_op (OpCritic w) s =
     (case snd (critic_node w s) of Inl e \<Rightarrow> None | Inr s' \<Rightarrow> Some s')"
| "apply_op (OpSummarizer w) s = Some (snd (summarizer_node w s))"
| "apply_op OpFinalize s = Some (finalize_node s)"
| "apply_op (OpConsume node_name cost) s = Some (consume_tokens s node_name cost)"

fun apply_ops :: "operation list \<Rightarrow> AgentState \<Rightarrow> AgentState option" where
  "apply_ops [] s = Some s"
| "apply_ops (x # xs) s =
     (case apply_op x s of None \<Rightarrow> None | Some s' \<Rightarrow> apply_ops xs s')"

text \<open>The ledger invariant of the specification:
  \<open>remaining_tokens == max(0, total_token_budget - sum(tokens_used.values()))\<close>.\<close>

definition ledger_invariant :: "AgentState \<Rightarrow> bool" where
  "ledger_invariant s =
     (case (total_token_budget s, remaining_tokens s, tokens_used s) of
        (Some budget, Some remaining, Some used) \<Rightarrow>
          remaining = max 0 (budget - sum_values used)
      | _ \<Rightarrow> False)"

text \<open>The status vocabulary of the specification, its degradation codes and its
  terminal codes.\<close>

definition status_vocabulary :: "string list" where
  "status_vocabulary =
     [''INIT'', ''INSUFFICIENT_BUDGET_FOR_PLANNING'', ''INSUFFICIENT_BUDGET_FOR_GENERATION'',
      ''COMPLETED'', ''COMPLETED_WITH_SUMMARY'']"

definition is_degradation_code :: "string \<Rightarrow> bool" where
  "is_degradation_code code =
     (code = ''INSUFFICIENT_BUDGET_FOR_PLANNING'' \<or> code = ''INSUFFICIENT_BUDGET_FOR_GENERATION'')"


text \<open>The transition rule as the specification words it, first match wins, over the five
  values it reads.\<close>

definition router_rules :: "string \<Rightarrow> int \<Rightarrow> pyfloat \<Rightarrow> int \<Rightarrow> int \<Rightarrow> route" where
  "router_rules code remaining quality steps limit =
     (if is_degradation_code code then RouteSummarize
      else if remaining \<le> 500 then RouteSummarize
      else if f_ge quality (Fin 0.85) then RouteEnd
      else if steps \<ge> limit then RouteSummarize
      else RouteLoop)"

text \<open>\<open>clamp(x, lo, hi)\<close> of the specification.\<close>

definition clamp :: "int \<Rightarrow> int \<Rightarrow> int \<Rightarrow> int" where
  "clamp x lo hi = max lo (min x hi)"

text \<open>A score in the closed interval from 0 to 1.\<close>

fun unit_score :: "pyfloat option \<Rightarrow> bool" where
  "unit_score (Some (Fin x)) = (0 \<le> x \<and> x \<le> 1)"
| "unit_score _ = False"



text \<open>The services of a world, without its logs: two worlds with the same services
  answer every call alike.\<close>

definition services :: "world \<Rightarrow> world" where
  "services w = w\<lparr>llm_log := [], embed_log := [], index_log := [], search_log := []\<rparr>"


section \<open>Concrete worlds\<close>

text \<open>
  A world for concrete runs: the completion service answers every request with the given
  text and reports 100 prompt and 50 completion tokens; the embedding is never empty; the
  index returns one chunk whatever is asked; the tokenizer counts characters;
  \<open>json_loads\<close> knows the replies used below and rejects any other text; no string is a
  float literal.
\<close>

definition sample_json_loads :: "string \<Rightarrow> pyerror + json" where
  \<open>sample_json_loads text =
     (if text = ''{"score": 0.9}'' then Inr (JObj [(''score'', JFloat (Fin 0.9))])
      else if text = ''{"score": 0.5}'' then Inr (JObj [(''score'', JFloat (Fin 0.5))])
      else if text = ''0.9'' then Inr (JFloat (Fin 0.9))
      else if text = ''[]'' then Inr (JArr [])
      else Inl JSONDecodeError)\<close>

definition sample_world :: "string \<Rightarrow> world" where
  "sample_world reply =
     \<lparr> llm_reply = (\<lambda>n req. \<lparr> resp_content = Some reply,
                               resp_usage = Some \<lparr> prompt_tokens = 100, completion_tokens = 50 \<rparr> \<rparr>),
       embedding_reply = (\<lambda>n text. [1]),
       index_reply = (\<lambda>n embedding k. [''chunk'']),
       tokenizer = length,
       json_loads = sample_json_loads,
       str_to_float = (\<lambda>text. None),
       llm_log = [],
       embed_log = [],
       index_log = [],
       search_log = [] \<rparr>"


section \<open>Properties\<close>

subsection \<open>The ledger and the frames of the nodes\<close>

lemma get_or_simps [simp]: "get_or d None = d" "get_or d (Some x) = x"
  by (simp_all add: get_or_def)

lemma dict_get_set:
  "dict_get (dict_set d k v) k' dflt = (if k' = k then v else dict_get d k' dflt)"
  by (induction d) auto

lemma sum_values_set:
  "sum_values (dict_set d k (dict_get d k 0 + c)) = sum_values d + c"
  by (induction d) (auto simp: sum_values_def)

lemma dict_set_key: "(k, v) \<in> set (dict_set d k v)"
  by (induction d) auto

lemma consume_tokens_fields:
  "consume_tokens s k c =
     s\<lparr>remaining_tokens := Some (max (remaining_of s - max 0 c) 0),
       tokens_used := Some (dict_set (get_or [] (tokens_used s)) k (used_of s k + max 0 c))\<rparr>"
  by (simp add: consume_tokens_def remaining_of_def used_of_def Let_def)

lemma consume_tokens_frame [simp]:
  "user_query (consume_tokens s k c) = user_query s"
  "plan (consume_tokens s k c) = plan s"
  "retrieved_chunks (consume_tokens s k c) = retrieved_chunks s"
  "draft_answer (consume_tokens s k c) = draft_answer s"
  "final_answer (consume_tokens s k c) = final_answer s"
  "total_token_budget (consume_tokens s k c) = total_token_budget s"
  "step_count (consume_tokens s k c) = step_count s"
  "max_steps (consume_tokens s k c) = max_steps s"
  "quality_score (consume_tokens s k c) = quality_score s"
  "status (consume_tokens s k c) = status s"
  by (simp_all add: consume_tokens_fields)

lemma used_of_consume:
  "used_of (consume_tokens s k c) k' = (if k' = k then used_of s k + max 0 c else used_of s k')"
  by (simp add: consume_tokens_fields used_of_def dict_get_set)

lemma remaining_of_consume:
  "remaining_of (consume_tokens s k c) = max (remaining_of s - max 0 c) 0"
  by (simp add: consume_tokens_fields remaining_of_def)

lemma chat_completion_services [simp]:
  "llm_reply (fst (chat_completion w req)) = llm_reply w"
  "json_loads (fst (chat_completion w req)) = json_loads w"
  "str_to_float (fst (chat_completion w req)) = str_to_float w"
  by (simp_all add: chat_completion_def)

lemma similarity_search_services [simp]:
  "llm_reply (fst (similarity_search w q k)) = llm_reply w"
  "json_loads (fst (similarity_search w q k)) = json_loads w"
  "str_to_float (fst (similarity_search w q k)) = str_to_float w"
  by (simp_all add: similarity_search_def embed_query_def Let_def split_def)

lemma similarity_search_logs:
  "llm_log (fst (similarity_search w q k)) = llm_log w"
  "search_log (fst (similarity_search w q k)) = search_log w @ [(q, k)]"
  "index_log (fst (similarity_search w q k)) = index_log w
     \<or> index_log (fst (similarity_search w q k)) = index_log w @ [k]"
  by (simp_all add: similarity_search_def embed_query_def Let_def split_def)





lemma planner_degraded:
  "remaining_of s < 800 \<Longrightarrow>
   planner_node w s = (w, s\<lparr>status := Some ''INSUFFICIENT_BUDGET_FOR_PLANNING''\<rparr>)"
  by (simp add: planner_node_def remaining_of_def PLANNER_REQUIRED_BUDGET_def)

lemma generator_degraded:
  "remaining_of s < 2500 \<Longrightarrow>
   generator_node w s = (w, s\<lparr>status := Some ''INSUFFICIENT_BUDGET_FOR_GENERATION''\<rparr>)"
  by (simp add: generator_node_def remaining_of_def GENERATOR_REQUIRED_BUDGET_def)

lemma retriever_unfunded:
  "remaining_of s - 3000 \<le> 0 \<Longrightarrow> retriever_node w s = (w, s\<lparr>retrieved_chunks := Some []\<rparr>)"
  by (simp add: retriever_node_def remaining_of_def MIN_GENERATION_BUDGET_def Let_def)


lemma planner_steps:
  "steps_of (snd (planner_node w s)) = (if remaining_of s < 800 then steps_of s else steps_of s + 1)
   \<and> max_steps (snd (planner_node w s)) = max_steps s"
  by (simp add: planner_node_def Let_def split_def steps_of_def remaining_of_def PLANNER_REQUIRED_BUDGET_def)

lemma planner_status:
  "status (snd (planner_node w s)) =
     (if remaining_of s < 800 then Some ''INSUFFICIENT_BUDGET_FOR_PLANNING'' else status s)"
  by (simp add: planner_node_def Let_def split_def remaining_of_def PLANNER_REQUIRED_BUDGET_def)

lemma retriever_frame:
  "status (snd (retriever_node w s)) = status s
   \<and> step_count (snd (retriever_node w s)) = step_count s
   \<and> max_steps (snd (retriever_node w s)) = max_steps s
   \<and> plan (snd (retriever_node w s)) = plan s
   \<and> draft_answer (snd (retriever_node w s)) = draft_answer s
   \<and> final_answer (snd (retriever_node w s)) = final_answer s
   \<and> quality_score (snd (retriever_node w s)) = quality_score s
   \<and> total_token_budget (snd (retriever_node w s)) = total_token_budget s
   \<and> user_query (snd (retriever_node w s)) = user_query s"
  by (simp add: retriever_node_def Let_def split_def)

lemma generator_frame:
  "step_count (snd (generator_node w s)) = step_count s
   \<and> max_steps (snd (generator_node w s)) = max_steps s
   \<and> status (snd (generator_node w s)) =
       (if remaining_of s < 2500 then Some ''INSUFFICIENT_BUDGET_FOR_GENERATION'' else status s)"
  by (simp add: generator_node_def Let_def split_def remaining_of_def GENERATOR_REQUIRED_BUDGET_def)

lemma critic_frame:
  "snd (critic_node w s) = Inr s' \<Longrightarrow>
   step_count s' = step_count s \<and> max_steps s' = max_steps s \<and> status s' = status s"
  by (auto simp add: critic_node_def Let_def split_def split: if_splits sum.splits)

lemma summarizer_frame:
  "step_count (snd (summarizer_node w s)) = step_count s
   \<and> max_steps (snd (summarizer_node w s)) = max_steps s
   \<and> status (snd (summarizer_node w s)) = Some ''COMPLETED_WITH_SUMMARY''"
  by (simp add: summarizer_node_def Let_def split_def)

subsection \<open>Routing and one pass\<close>




subsection \<open>The critic's score\<close>




lemma clamp_unit: "unit_score (Some (py_max (Fin 0) (py_min (Fin 1) x)))"
  by (cases x) (auto simp: py_max_def py_min_def)

lemma parse_score_unit: "parse_score w txt = Inr x \<Longrightarrow> unit_score (Some x)"
  by (auto simp: parse_score_def clamp_unit split: sum.splits)

lemma critic_score_unit: "critic_score w txt = Inr x \<Longrightarrow> unit_score (Some x)"
  by (auto simp: critic_score_def parse_score_unit split: sum.splits if_splits)


lemma critic_score_fallback:
  "parse_score w txt = Inl e \<Longrightarrow> caught e \<Longrightarrow> critic_score w txt = Inr (Fin 0.7)"
  by (simp add: critic_score_def)

lemma critic_node_unit:
  "snd (critic_node w s) = Inr s' \<Longrightarrow> unit_score (quality_score s')"
  by (auto simp: critic_node_def Let_def split_def critic_score_unit split: if_splits sum.splits)







subsection \<open>Termination of the graph\<close>



lemma run_from_pass:
  "run_from (Suc (Suc (Suc (Suc limit)))) Planner w s =
     (case run_pass w s of
        (w1, Inl e) \<Rightarrow> (w1, Inl e, 0)
      | (w1, Inr s1) \<Rightarrow>
          (case should_continue s1 of
             RouteEnd \<Rightarrow> bump (run_from limit Finalize w1 s1)
           | RouteLoop \<Rightarrow> bump (run_from limit Planner w1 s1)
           | RouteSummarize \<Rightarrow> bump (run_from limit Summarizer w1 s1)))"
  by (simp add: run_pass_def split_def Let_def)








subsection \<open>Runs in the sample world\<close>

lemma chat_completion_keeps: "services (fst (chat_completion w req)) = services w"
  by (simp add: chat_completion_def services_def)

lemma similarity_search_keeps: "services (fst (similarity_search w q k)) = services w"
  by (simp add: similarity_search_def embed_query_def Let_def split_def services_def)

lemma planner_keeps: "services (fst (planner_node w s)) = services w"
  by (simp add: planner_node_def Let_def split_def chat_completion_keeps)

lemma retriever_keeps: "services (fst (retriever_node w s)) = services w"
  by (simp add: retriever_node_def Let_def split_def similarity_search_keeps)

lemma generator_keeps: "services (fst (generator_node w s)) = services w"
  by (simp add: generator_node_def Let_def split_def chat_completion_keeps)


lemma services_fields:
  "llm_reply (services w) = llm_reply w"
  "embedding_reply (services w) = embedding_reply w"
  "index_reply (services w) = index_reply w"
  "tokenizer (services w) = tokenizer w"
  "json_loads (services w) = json_loads w"
  "str_to_float (services w) = str_to_float w"
  by (simp_all add: services_def)

lemma sample_fields:
  assumes "services w = sample_world R"
  shows "llm_reply w = (\<lambda>n req. \<lparr> resp_content = Some R,
            resp_usage = Some \<lparr> prompt_tokens = 100, completion_tokens = 50 \<rparr> \<rparr>)"
    and "embedding_reply w = (\<lambda>n text. [1])"
    and "index_reply w = (\<lambda>n embedding k. [''chunk''])"
    and "tokenizer w = length"
    and "json_loads w = sample_json_loads"
    and "str_to_float w = (\<lambda>text. None)"
  using services_fields [of w, symmetric] unfolding assms
  by (simp_all add: sample_world_def)

lemma sample_charge:
  assumes "services w = sample_world R"
  shows "charged_tokens w' (snd (chat_completion w req)) text = 150"
    and "resp_content (snd (chat_completion w req)) = Some R"
  by (simp_all add: charged_tokens_def chat_completion_def sample_fields(1) [OF assms])

lemma remaining_of_frame:
  "remaining_of (s\<lparr>plan := a\<rparr>) = remaining_of s"
  "remaining_of (s\<lparr>retrieved_chunks := b\<rparr>) = remaining_of s"
  "remaining_of (s\<lparr>draft_answer := c\<rparr>) = remaining_of s"
  "remaining_of (s\<lparr>quality_score := d\<rparr>) = remaining_of s"
  "remaining_of (s\<lparr>step_count := e\<rparr>) = remaining_of s"
  "remaining_of (s\<lparr>status := f\<rparr>) = remaining_of s"
  by (simp_all add: remaining_of_def)

lemma sample_planner:
  assumes "services w = sample_world R" and "800 \<le> remaining_of s"
  shows "remaining_of (snd (planner_node w s)) = remaining_of s - 150"
    and "user_query (snd (planner_node w s)) = user_query s"
  using assms(2)
  by (simp_all add: planner_node_def Let_def split_def sample_charge [OF assms(1)]
      remaining_of_consume remaining_of_frame remaining_of_def [symmetric] PLANNER_REQUIRED_BUDGET_def)

lemma sample_search:
  assumes "services w = sample_world R"
  shows "snd (similarity_search w ''q'' k) = [''chunk'']"
  by (simp add: similarity_search_def embed_query_def Let_def split_def
      sample_fields(2,3) [OF assms])

lemma sample_retriever:
  assumes "services w = sample_world R" and "3000 < remaining_of s"
    and "user_query s = Some ''q''"
  shows "remaining_of (snd (retriever_node w s)) = remaining_of s - 5"
proof -
  have tk: "tokenizer (fst (similarity_search w ''q'' k)) = length" for k
    using similarity_search_keeps [of w "''q''" k] sample_fields(4) [of "fst (similarity_search w ''q'' k)" R]
      assms(1) by simp
  show ?thesis
    using assms(2,3)
    by (simp add: retriever_node_def Let_def split_def sample_search [OF assms(1)] tk
        estimate_tokens_def remaining_of_consume remaining_of_frame remaining_of_def [symmetric] MIN_GENERATION_BUDGET_def)
qed

lemma sample_generator:
  assumes "services w = sample_world R" and "2500 \<le> remaining_of s"
  shows "remaining_of (snd (generator_node w s)) = remaining_of s - 150"
    and "user_query (snd (generator_node w s)) = user_query s"
  using assms(2)
  by (simp_all add: generator_node_def Let_def split_def sample_charge [OF assms(1)]
      remaining_of_consume remaining_of_frame remaining_of_def [symmetric] GENERATOR_REQUIRED_BUDGET_def)



lemma sample_before_critic:
  assumes sw: "services w = sample_world R"
    and r: "4000 \<le> remaining_of s"
    and q: "user_query s = Some ''q''"
  shows "\<exists>w3 s3. run_pass w s = critic_node w3 s3
           \<and> services w3 = sample_world R
           \<and> remaining_of s3 = remaining_of s - 305
           \<and> user_query s3 = Some ''q''
           \<and> status s3 = status s
           \<and> steps_of s3 = steps_of s + 1
           \<and> max_steps s3 = max_steps s"
proof -
  define p where "p = planner_node w s"
  define t where "t = retriever_node (fst p) (snd p)"
  define g where "g = generator_node (fst t) (snd t)"
  have sp: "services (fst p) = sample_world R"
    using sw by (simp add: p_def planner_keeps)
  have st: "services (fst t) = sample_world R"
    using sp by (simp add: t_def retriever_keeps)
  have sg: "services (fst g) = sample_world R"
    using st by (simp add: g_def generator_keeps)
  have rp: "remaining_of (snd p) = remaining_of s - 150" and qp: "user_query (snd p) = Some ''q''"
    using sample_planner [OF sw, of s] r q by (simp_all add: p_def)
  have fp: "steps_of (snd p) = steps_of s + 1" "max_steps (snd p) = max_steps s"
    "status (snd p) = status s"
    using planner_steps [of w s] planner_status [of w s] r by (simp_all add: p_def)
  have rt: "remaining_of (snd t) = remaining_of s - 155"
    using sample_retriever [OF sp, of "snd p"] rp qp r by (simp add: t_def)
  have ft: "step_count (snd t) = step_count (snd p)" "max_steps (snd t) = max_steps (snd p)"
    "status (snd t) = status (snd p)" "user_query (snd t) = Some ''q''"
    using retriever_frame [of "fst p" "snd p"] qp by (simp_all add: t_def)
  have rg: "remaining_of (snd g) = remaining_of s - 305" and qg: "user_query (snd g) = Some ''q''"
    using sample_generator [OF st, of "snd t"] rt ft(4) r by (simp_all add: g_def)
  have fg: "step_count (snd g) = step_count (snd t)" "max_steps (snd g) = max_steps (snd t)"
    "status (snd g) = status (snd t)"
    using generator_frame [of "fst t" "snd t"] rt r by (simp_all add: g_def)
  have pass: "run_pass w s = critic_node (fst g) (snd g)"
    by (simp add: run_pass_def split_def Let_def p_def t_def g_def)
  moreover have "steps_of (snd g) = steps_of s + 1"
    using fg(1) ft(1) fp(1) by (simp add: steps_of_def)
  ultimately show ?thesis
    using sg rg qg fg ft fp by auto
qed










subsection \<open>The ledger invariant\<close>

lemma ledger_invariant_frame [simp]:
  "ledger_invariant (s\<lparr>user_query := a\<rparr>) = ledger_invariant s"
  "ledger_invariant (s\<lparr>plan := b\<rparr>) = ledger_invariant s"
  "ledger_invariant (s\<lparr>retrieved_chunks := c\<rparr>) = ledger_invariant s"
  "ledger_invariant (s\<lparr>draft_answer := d\<rparr>) = ledger_invariant s"
  "ledger_invariant (s\<lparr>final_answer := e\<rparr>) = ledger_invariant s"
  "ledger_invariant (s\<lparr>step_count := f\<rparr>) = ledger_invariant s"
  "ledger_invariant (s\<lparr>max_steps := g\<rparr>) = ledger_invariant s"
  "ledger_invariant (s\<lparr>quality_score := h\<rparr>) = ledger_invariant s"
  "ledger_invariant (s\<lparr>status := i\<rparr>) = ledger_invariant s"
  by (simp_all add: ledger_invariant_def)

lemma ledger_invariant_consume:
  assumes "ledger_invariant s"
  shows "ledger_invariant (consume_tokens s k c)"
proof -
  obtain b r u where f: "total_token_budget s = Some b" "remaining_tokens s = Some r"
    "tokens_used s = Some u" and eq: "r = max 0 (b - sum_values u)"
    using assms by (auto simp: ledger_invariant_def split: option.splits)
  have "max (r - max 0 c) 0 = max 0 (b - (sum_values u + max 0 c))"
    using eq by linarith
  then show ?thesis
    using f
    by (simp add: ledger_invariant_def consume_tokens_fields remaining_of_def used_of_def
        sum_values_set)
qed

lemma ledger_invariant_nonneg:
  "ledger_invariant s \<Longrightarrow> \<exists>r. remaining_tokens s = Some r \<and> 0 \<le> r"
  by (auto simp: ledger_invariant_def split: option.splits)

lemma planner_ledger:
  "ledger_invariant s \<Longrightarrow> ledger_invariant (snd (planner_node w s))
     \<and> total_token_budget (snd (planner_node w s)) = total_token_budget s"
  by (simp add: planner_node_def Let_def split_def ledger_invariant_consume)

lemma retriever_ledger:
  "ledger_invariant s \<Longrightarrow> ledger_invariant (snd (retriever_node w s))
     \<and> total_token_budget (snd (retriever_node w s)) = total_token_budget s"
  by (simp add: retriever_node_def Let_def split_def ledger_invariant_consume)

lemma generator_ledger:
  "ledger_invariant s \<Longrightarrow> ledger_invariant (snd (generator_node w s))
     \<and> total_token_budget (snd (generator_node w s)) = total_token_budget s"
  by (simp add: generator_node_def Let_def split_def ledger_invariant_consume)

lemma critic_ledger:
  "ledger_invariant s \<Longrightarrow> snd (critic_node w s) = Inr s' \<Longrightarrow>
   ledger_invariant s' \<and> total_token_budget s' = total_token_budget s"
  by (auto simp add: critic_node_def Let_def split_def ledger_invariant_consume
      split: if_splits sum.splits)

lemma summarizer_ledger:
  "ledger_invariant s \<Longrightarrow> ledger_invariant (snd (summarizer_node w s))
     \<and> total_token_budget (snd (summarizer_node w s)) = total_token_budget s"
  by (simp add: summarizer_node_def Let_def split_def ledger_invariant_consume)

lemma finalize_ledger:
  "ledger_invariant s \<Longrightarrow> ledger_invariant (finalize_node s)
     \<and> total_token_budget (finalize_node s) = total_token_budget s"
  by (simp add: finalize_node_def)

lemma apply_op_ledger:
  assumes "ledger_invariant s" and "apply_op x s = Some s'"
  shows "ledger_invariant s' \<and> total_token_budget s' = total_token_budget s"
proof (cases x)
  case (OpPlanner w)
  then show ?thesis using assms planner_ledger [of s w] by auto
next
  case (OpRetriever w)
  then show ?thesis using assms retriever_ledger [of s w] by auto
next
  case (OpGenerator w)
  then show ?thesis using assms generator_ledger [of s w] by auto
next
  case (OpCritic w)
  then show ?thesis using assms critic_ledger [of s w s'] by (auto split: sum.splits)
next
  case (OpSummarizer w)
  then show ?thesis using assms summarizer_ledger [of s w] by auto
next
  case OpFinalize
  then show ?thesis using assms finalize_ledger [of s] by auto
next
  case (OpConsume k c)
  then show ?thesis using assms ledger_invariant_consume [of s k c] by auto
qed

lemma apply_ops_ledger:
  "ledger_invariant s \<Longrightarrow> apply_ops xs s = Some s' \<Longrightarrow>
   ledger_invariant s' \<and> total_token_budget s' = total_token_budget s"
proof (induction xs arbitrary: s)
  case Nil
  then show ?case by simp
next
  case (Cons x xs)
  then obtain s1 where s1: "apply_op x s = Some s1" and rest: "apply_ops xs s1 = Some s'"
    by (auto split: option.splits)
  have "ledger_invariant s1 \<and> total_token_budget s1 = total_token_budget s"
    using apply_op_ledger [OF Cons.prems(1) s1] .
  then show ?case
    using Cons.IH [of s1] rest by simp
qed

lemma initialize_state_ledger:
  "0 \<le> budget \<Longrightarrow> ledger_invariant (initialize_state q budget steps)"
  by (simp add: initialize_state_def ledger_invariant_def sum_values_def)

text \<open>
  Claim C2, as amended. For every state reached from \<open>initialize_state\<close> with a budget
  that is not negative, by any sequence of \<open>planner_node\<close>, \<open>retriever_node\<close>,
  \<open>generator_node\<close>, \<open>critic_node\<close>, \<open>summarizer_node\<close>, \<open>finalize_node\<close> and
  \<open>consume_tokens\<close> (each node in any world, \<open>consume_tokens\<close> with any name and cost),
  \<open>remaining_tokens == max(0, total_token_budget - sum(tokens_used.values()))\<close> holds, the
  total budget is the initial one, and \<open>remaining_tokens\<close> is not negative.
\<close>

theorem ledger_invariant_reachable:
  assumes "0 \<le> budget"
    and "apply_ops xs (initialize_state q budget steps) = Some s"
  shows "ledger_invariant s
         \<and> total_token_budget s = Some budget
         \<and> remaining_of s = max 0 (budget - sum_values (get_or [] (tokens_used s)))
         \<and> (\<exists>r. remaining_tokens s = Some r \<and> 0 \<le> r)"
proof -
  have inv: "ledger_invariant s" and tot: "total_token_budget s = Some budget"
    using apply_ops_ledger [OF initialize_state_ledger [OF assms(1)] assms(2)]
    by (simp_all add: initialize_state_def)
  have "remaining_of s = max 0 (budget - sum_values (get_or [] (tokens_used s)))"
    using inv tot by (auto simp: ledger_invariant_def remaining_of_def split: option.splits)
  then show ?thesis
    using inv tot ledger_invariant_nonneg [OF inv] by simp
qed

lemma sample_ops:
  "apply_ops [OpPlanner (sample_world ''ok''), OpConsume ''x'' 100] (initialize_state ''q'' 1000 5)
     = Some ((initialize_state ''q'' 1000 5)
          \<lparr>plan := Some ''ok'', remaining_tokens := Some 750,
           tokens_used := Some [(''planner'', 150), (''x'', 100)], step_count := Some 1\<rparr>)"
  by (simp add: planner_node_def chat_completion_def sample_world_def charged_tokens_def
      consume_tokens_def initialize_state_def str_or_def PLANNER_REQUIRED_BUDGET_def Let_def)

text \<open>
  The invariant after a funded planner call and one more charge on a budget of 1000.
\<close>

theorem ledger_invariant_reachable_witness:
  "(0::int) \<le> 1000
   \<and> apply_ops [OpPlanner (sample_world ''ok''), OpConsume ''x'' 100] (initialize_state ''q'' 1000 5)
       = Some ((initialize_state ''q'' 1000 5)
          \<lparr>plan := Some ''ok'', remaining_tokens := Some 750,
           tokens_used := Some [(''planner'', 150), (''x'', 100)], step_count := Some 1\<rparr>)
   \<and> ledger_invariant ((initialize_state ''q'' 1000 5)
          \<lparr>plan := Some ''ok'', remaining_tokens := Some 750,
           tokens_used := Some [(''planner'', 150), (''x'', 100)], step_count := Some 1\<rparr>)"
  using ledger_invariant_reachable [OF _ sample_ops] sample_ops by simp

text \<open>
  A negative budget is stored as it is: the initial state has \<open>remaining_tokens = -5\<close>,
  which is neither \<open>max(0, -5 - 0)\<close> nor non-negative, and the degraded planner leaves it so.
\<close>

theorem negative_budget_breaks_invariant:
  "apply_ops [] (initialize_state ''q'' (-5) 5) = Some (initialize_state ''q'' (-5) 5)
   \<and> remaining_tokens (initialize_state ''q'' (-5) 5) = Some (-5)
   \<and> \<not> ledger_invariant (initialize_state ''q'' (-5) 5)
   \<and> apply_ops [OpPlanner (sample_world ''ok'')] (initialize_state ''q'' (-5) 5)
       = Some ((initialize_state ''q'' (-5) 5)\<lparr>status := Some ''INSUFFICIENT_BUDGET_FOR_PLANNING''\<rparr>)
   \<and> remaining_tokens ((initialize_state ''q'' (-5) 5)
         \<lparr>status := Some ''INSUFFICIENT_BUDGET_FOR_PLANNING''\<rparr>) = Some (-5)"
  by (simp add: initialize_state_def ledger_invariant_def sum_values_def planner_node_def
      PLANNER_REQUIRED_BUDGET_def)

subsection \<open>Charging the ledger\<close>

text \<open>
  Claim C9, as amended. For every state, node name and cost, \<open>consume_tokens\<close> adds
  \<open>max(0, cost)\<close> to \<open>tokens_used[node_name]\<close> (the entry exists afterwards, other
  entries keep their value), sets \<open>remaining_tokens\<close> to the old value less the same
  amount, floored at 0, and changes no other field; it is a total function. It is not
  idempotent: two calls with \<open>"x"\<close> and 100 raise \<open>tokens_used["x"]\<close> by 200, to exactly
  200 from a state that has charged nothing to \<open>"x"\<close>. A negative cost changes no
  numeric value when \<open>remaining_tokens\<close> is not negative; a negative \<open>remaining_tokens\<close>
  becomes 0.
\<close>

theorem consume_tokens_accounting:
  "used_of (consume_tokens s k c) k = used_of s k + max 0 c
   \<and> (\<forall>k'. k' \<noteq> k \<longrightarrow> used_of (consume_tokens s k c) k' = used_of s k')
   \<and> (\<exists>used. tokens_used (consume_tokens s k c) = Some used
         \<and> (k, used_of s k + max 0 c) \<in> set used)
   \<and> remaining_tokens (consume_tokens s k c) = Some (max 0 (remaining_of s - max 0 c))
   \<and> consume_tokens s k c =
       s\<lparr>remaining_tokens := remaining_tokens (consume_tokens s k c),
         tokens_used := tokens_used (consume_tokens s k c)\<rparr>
   \<and> used_of (consume_tokens (consume_tokens s ''x'' 100) ''x'' 100) ''x'' = used_of s ''x'' + 200
   \<and> (used_of s ''x'' = 0 \<longrightarrow>
        used_of (consume_tokens (consume_tokens s ''x'' 100) ''x'' 100) ''x'' = 200)
   \<and> (c < 0 \<longrightarrow> 0 \<le> remaining_of s \<longrightarrow>
        remaining_of (consume_tokens s k c) = remaining_of s
        \<and> (\<forall>k'. used_of (consume_tokens s k c) k' = used_of s k'))
   \<and> (c < 0 \<longrightarrow> remaining_of s < 0 \<longrightarrow> remaining_of (consume_tokens s k c) = 0)"
proof (intro conjI)
  show "used_of (consume_tokens s k c) k = used_of s k + max 0 c"
    by (simp add: used_of_consume)
  show "\<forall>k'. k' \<noteq> k \<longrightarrow> used_of (consume_tokens s k c) k' = used_of s k'"
    by (simp add: used_of_consume)
  show "\<exists>used. tokens_used (consume_tokens s k c) = Some used
         \<and> (k, used_of s k + max 0 c) \<in> set used"
    by (simp add: consume_tokens_fields dict_set_key)
  show "remaining_tokens (consume_tokens s k c) = Some (max 0 (remaining_of s - max 0 c))"
    by (simp add: consume_tokens_fields max.commute)
  show "consume_tokens s k c =
       s\<lparr>remaining_tokens := remaining_tokens (consume_tokens s k c),
         tokens_used := tokens_used (consume_tokens s k c)\<rparr>"
    by (simp add: consume_tokens_fields)
  show "used_of (consume_tokens (consume_tokens s ''x'' 100) ''x'' 100) ''x'' = used_of s ''x'' + 200"
    by (simp add: used_of_consume)
  show "used_of s ''x'' = 0 \<longrightarrow>
        used_of (consume_tokens (consume_tokens s ''x'' 100) ''x'' 100) ''x'' = 200"
    by (simp add: used_of_consume)
  show "c < 0 \<longrightarrow> 0 \<le> remaining_of s \<longrightarrow>
        remaining_of (consume_tokens s k c) = remaining_of s
        \<and> (\<forall>k'. used_of (consume_tokens s k c) k' = used_of s k')"
    by (simp add: used_of_consume remaining_of_consume)
  show "c < 0 \<longrightarrow> remaining_of s < 0 \<longrightarrow> remaining_of (consume_tokens s k c) = 0"
    by (simp add: remaining_of_consume)
qed

text \<open>
  On a fresh state with budget 1000: two charges of 100 leave 200 under \<open>"x"\<close>, and a
  cost of -1 changes neither the remaining budget nor an entry.
\<close>

theorem consume_tokens_accounting_witness:
  "(-1::int) < 0 \<and> (0::int) \<le> remaining_of (initialize_state ''q'' 1000 5)
   \<and> ''planner'' \<noteq> ''x''
   \<and> used_of (initialize_state ''q'' 1000 5) ''x'' = 0
   \<and> used_of (consume_tokens (consume_tokens (initialize_state ''q'' 1000 5) ''x'' 100) ''x'' 100) ''x'' = 200
   \<and> remaining_of (consume_tokens (initialize_state ''q'' 1000 5) ''x'' (-1)) = 1000
   \<and> used_of (consume_tokens (initialize_state ''q'' 1000 5) ''x'' (-1)) ''planner'' = 0"
proof -
  let ?s = "initialize_state ''q'' 1000 5"
  have neg: "(-1::int) < 0" by simp
  have r: "remaining_of ?s = 1000" by (simp add: initialize_state_def remaining_of_def)
  then have r0: "0 \<le> remaining_of ?s" by simp
  have u: "used_of ?s ''x'' = 0" "used_of ?s ''planner'' = 0"
    by (simp_all add: initialize_state_def used_of_def)
  have ne: "''planner'' \<noteq> ''x''" by simp
  note t = consume_tokens_accounting [of ?s "''x''" "-1"]
  from t u(1) have twice:
    "used_of (consume_tokens (consume_tokens ?s ''x'' 100) ''x'' 100) ''x'' = 200"
    by blast
  from t neg r0 have keep: "remaining_of (consume_tokens ?s ''x'' (-1)) = remaining_of ?s"
    by blast
  from t ne have other: "used_of (consume_tokens ?s ''x'' (-1)) ''planner'' = used_of ?s ''planner''"
    by blast
  show ?thesis
    using neg r0 ne u twice keep other r by simp
qed

text \<open>
  From the initial state of a budget of -5, a call with the negative cost -1 changes
  \<open>remaining_tokens\<close> from -5 to 0.
\<close>

theorem negative_cost_raises_negative_remaining:
  "remaining_tokens (initialize_state ''q'' (-5) 5) = Some (-5)
   \<and> remaining_tokens (consume_tokens (initialize_state ''q'' (-5) 5) ''x'' (-1)) = Some 0"
  by (simp add: consume_tokens_def initialize_state_def)

subsection \<open>The router\<close>

lemma vocabulary_prefix:
  assumes "code \<in> set status_vocabulary"
  shows "startswith code ''INSUFFICIENT_BUDGET'' = is_degradation_code code"
proof -
  consider "code = ''INIT''" | "code = ''INSUFFICIENT_BUDGET_FOR_PLANNING''"
    | "code = ''INSUFFICIENT_BUDGET_FOR_GENERATION''" | "code = ''COMPLETED''"
    | "code = ''COMPLETED_WITH_SUMMARY''"
    using assms unfolding status_vocabulary_def by fastforce
  then show ?thesis
    by cases (simp_all add: is_degradation_code_def)
qed

text \<open>
  Claim C3. On every state whose status is one of the status codes of the system,
  \<open>should_continue\<close> decides by the first matching rule of: a degradation code gives
  \<open>summarize\<close>; \<open>remaining_tokens <= 500\<close> gives \<open>summarize\<close>; \<open>quality_score >= 0.85\<close>
  gives \<open>end\<close>; \<open>step_count >= max_steps\<close> gives \<open>summarize\<close>; otherwise \<open>loop\<close>. In
  particular a degraded status, and a budget at or below the threshold, give \<open>summarize\<close>
  whatever the quality score is. (\<open>run_pass_vocabulary\<close> below: the state after the critic
  has such a status whenever the state before the pass has one.)
\<close>

theorem should_continue_precedence:
  assumes "status s = Some code" and "code \<in> set status_vocabulary"
  shows "should_continue s =
           router_rules code (remaining_of s) (get_or (Fin 0) (quality_score s))
             (steps_of s) (get_or 5 (max_steps s))
         \<and> (is_degradation_code code \<longrightarrow> should_continue s = RouteSummarize)
         \<and> (remaining_of s \<le> 500 \<longrightarrow> should_continue s = RouteSummarize)"
  using assms vocabulary_prefix [OF assms(2)]
  by (simp add: should_continue_def router_rules_def remaining_of_def steps_of_def
      BUDGET_THRESHOLD_def QUALITY_THRESHOLD_def Let_def)

text \<open>
  A degraded state with quality 0.9 and a full budget is sent to \<open>summarize\<close>.
\<close>

theorem should_continue_precedence_witness:
  "status ((initialize_state ''q'' 10000 5)
      \<lparr>quality_score := Some (Fin 0.9), status := Some ''INSUFFICIENT_BUDGET_FOR_GENERATION''\<rparr>)
     = Some ''INSUFFICIENT_BUDGET_FOR_GENERATION''
   \<and> ''INSUFFICIENT_BUDGET_FOR_GENERATION'' \<in> set status_vocabulary
   \<and> is_degradation_code ''INSUFFICIENT_BUDGET_FOR_GENERATION''
   \<and> f_ge (Fin 0.9) (Fin 0.85)
   \<and> should_continue ((initialize_state ''q'' 10000 5)
      \<lparr>quality_score := Some (Fin 0.9), status := Some ''INSUFFICIENT_BUDGET_FOR_GENERATION''\<rparr>)
     = RouteSummarize"
proof -
  let ?s = "(initialize_state ''q'' 10000 5)
      \<lparr>quality_score := Some (Fin 0.9), status := Some ''INSUFFICIENT_BUDGET_FOR_GENERATION''\<rparr>"
  have a: "status ?s = Some ''INSUFFICIENT_BUDGET_FOR_GENERATION''" by simp
  have b: "''INSUFFICIENT_BUDGET_FOR_GENERATION'' \<in> set status_vocabulary"
    by (simp add: status_vocabulary_def)
  have d: "is_degradation_code ''INSUFFICIENT_BUDGET_FOR_GENERATION''"
    by (simp add: is_degradation_code_def)
  have q: "f_ge (Fin 0.9) (Fin 0.85)" by simp
  from should_continue_precedence [OF a b] d have "should_continue ?s = RouteSummarize"
    by blast
  with a b d q show ?thesis by blast
qed

lemma run_pass_vocabulary:
  assumes "run_pass w s = (w1, Inr s1)" and "\<exists>code \<in> set status_vocabulary. status s = Some code"
  shows "\<exists>code \<in> set status_vocabulary. status s1 = Some code"
proof -
  define p where "p = planner_node w s"
  define r where "r = retriever_node (fst p) (snd p)"
  define g where "g = generator_node (fst r) (snd r)"
  have c: "snd (critic_node (fst g) (snd g)) = Inr s1"
    using assms(1) by (simp add: run_pass_def split_def Let_def p_def r_def g_def)
  have "status s1 = status (snd g)"
    using critic_frame [OF c] by simp
  moreover have "status (snd g) = (if remaining_of (snd r) < 2500
        then Some ''INSUFFICIENT_BUDGET_FOR_GENERATION'' else status (snd r))"
    using generator_frame [of "fst r" "snd r"] by (simp add: g_def)
  moreover have "status (snd r) = status (snd p)"
    using retriever_frame [of "fst p" "snd p"] by (simp add: r_def)
  moreover have "status (snd p) =
     (if remaining_of s < 800 then Some ''INSUFFICIENT_BUDGET_FOR_PLANNING'' else status s)"
    using planner_status [of w s] by (simp add: p_def)
  ultimately show ?thesis
    using assms(2) by (auto simp: status_vocabulary_def)
qed

subsection \<open>The budget gates of planner and generator\<close>

text \<open>
  Claim C4. When \<open>remaining_tokens\<close> is below 800, \<open>planner_node\<close> returns the world as it
  was (no service was called, nothing was logged) and the state with only \<open>status\<close>
  changed, to \<open>INSUFFICIENT_BUDGET_FOR_PLANNING\<close>; when it is below 2500,
  \<open>generator_node\<close> does the same with \<open>INSUFFICIENT_BUDGET_FOR_GENERATION\<close>. The ledger
  fields are among the unchanged ones.
\<close>

theorem insufficient_budget_gates:
  "(remaining_of s < 800 \<longrightarrow>
      planner_node w s = (w, s\<lparr>status := Some ''INSUFFICIENT_BUDGET_FOR_PLANNING''\<rparr>))
   \<and> (remaining_of s < 2500 \<longrightarrow>
      generator_node w s = (w, s\<lparr>status := Some ''INSUFFICIENT_BUDGET_FOR_GENERATION''\<rparr>))"
  by (simp add: planner_degraded generator_degraded)

text \<open>
  With 700 tokens left both gates close.
\<close>

theorem insufficient_budget_gates_witness:
  "remaining_of (initialize_state ''q'' 700 5) < 800
   \<and> remaining_of (initialize_state ''q'' 700 5) < 2500
   \<and> planner_node (sample_world ''ok'') (initialize_state ''q'' 700 5) =
       (sample_world ''ok'',
        (initialize_state ''q'' 700 5)\<lparr>status := Some ''INSUFFICIENT_BUDGET_FOR_PLANNING''\<rparr>)
   \<and> generator_node (sample_world ''ok'') (initialize_state ''q'' 700 5) =
       (sample_world ''ok'',
        (initialize_state ''q'' 700 5)\<lparr>status := Some ''INSUFFICIENT_BUDGET_FOR_GENERATION''\<rparr>)"
proof -
  have r: "remaining_of (initialize_state ''q'' 700 5) = 700"
    by (simp add: remaining_of_def initialize_state_def)
  then have a: "remaining_of (initialize_state ''q'' 700 5) < 800"
    and b: "remaining_of (initialize_state ''q'' 700 5) < 2500" by simp_all
  from insufficient_budget_gates [of "initialize_state ''q'' 700 5" "sample_world ''ok''"] a b
  show ?thesis by blast
qed

subsection \<open>The step counter\<close>

lemma apply_op_steps:
  assumes "apply_op x s = Some s'"
  shows "steps_of s \<le> steps_of s'"
proof (cases x)
  case (OpPlanner w)
  then show ?thesis using assms planner_steps [of w s] by auto
next
  case (OpRetriever w)
  then show ?thesis using assms retriever_frame [of w s] by (auto simp: steps_of_def)
next
  case (OpGenerator w)
  then show ?thesis using assms generator_frame [of w s] by (auto simp: steps_of_def)
next
  case (OpCritic w)
  then show ?thesis using assms critic_frame [of w s s']
    by (auto simp: steps_of_def split: sum.splits)
next
  case (OpSummarizer w)
  then show ?thesis using assms summarizer_frame [of w s] by (auto simp: steps_of_def)
next
  case OpFinalize
  then show ?thesis using assms by (auto simp: steps_of_def finalize_node_def)
next
  case (OpConsume k c)
  then show ?thesis using assms by (auto simp: steps_of_def)
qed

lemma apply_ops_steps:
  "apply_ops xs s = Some s' \<Longrightarrow> steps_of s \<le> steps_of s'"
proof (induction xs arbitrary: s)
  case Nil
  then show ?case by simp
next
  case (Cons x xs)
  then obtain s1 where s1: "apply_op x s = Some s1" and rest: "apply_ops xs s1 = Some s'"
    by (auto split: option.splits)
  show ?case
    using apply_op_steps [OF s1] Cons.IH [OF rest] by simp
qed

text \<open>
  Claim C5, as amended. \<open>planner_node\<close> raises \<open>step_count\<close> by exactly 1 when the budget
  gate is open (\<open>remaining_tokens >= 800\<close>) and leaves it unchanged on the degraded path;
  \<open>step_count\<close> never decreases along any sequence of operations.
\<close>

theorem planner_step_count:
  "(\<not> remaining_of s < 800 \<longrightarrow> steps_of (snd (planner_node w s)) = steps_of s + 1)
   \<and> (remaining_of s < 800 \<longrightarrow> steps_of (snd (planner_node w s)) = steps_of s)
   \<and> (\<forall>xs s'. apply_ops xs s = Some s' \<longrightarrow> steps_of s \<le> steps_of s')"
  using planner_steps [of w s] apply_ops_steps by auto

text \<open>
  With 1000 tokens the planner counts a step; with 700 it does not.
\<close>

theorem planner_step_count_witness:
  "\<not> remaining_of (initialize_state ''q'' 1000 5) < 800
   \<and> steps_of (initialize_state ''q'' 1000 5) = 0
   \<and> steps_of (snd (planner_node (sample_world ''ok'') (initialize_state ''q'' 1000 5))) = 1
   \<and> remaining_of (initialize_state ''q'' 700 5) < 800
   \<and> steps_of (initialize_state ''q'' 700 5) = 0
   \<and> steps_of (snd (planner_node (sample_world ''ok'') (initialize_state ''q'' 700 5))) = 0"
proof -
  have a: "\<not> remaining_of (initialize_state ''q'' 1000 5) < 800"
    and b: "remaining_of (initialize_state ''q'' 700 5) < 800"
    and c: "steps_of (initialize_state ''q'' 1000 5) = 0"
    and d: "steps_of (initialize_state ''q'' 700 5) = 0"
    by (simp_all add: remaining_of_def steps_of_def initialize_state_def)
  from planner_step_count [of "initialize_state ''q'' 1000 5" "sample_world ''ok''"] a
  have e: "steps_of (snd (planner_node (sample_world ''ok'') (initialize_state ''q'' 1000 5)))
     = steps_of (initialize_state ''q'' 1000 5) + 1" by blast
  from planner_step_count [of "initialize_state ''q'' 700 5" "sample_world ''ok''"] b
  have f: "steps_of (snd (planner_node (sample_world ''ok'') (initialize_state ''q'' 700 5)))
     = steps_of (initialize_state ''q'' 700 5)" by blast
  show ?thesis using a b c d e f by simp
qed

text \<open>
  With 400 tokens left the planner degrades and \<open>step_count\<close> is 0 before and after.
\<close>

theorem degraded_planner_keeps_step_count:
  "remaining_of (initialize_state ''q'' 400 5) = 400
   \<and> planner_node (sample_world ''ok'') (initialize_state ''q'' 400 5) =
       (sample_world ''ok'',
        (initialize_state ''q'' 400 5)\<lparr>status := Some ''INSUFFICIENT_BUDGET_FOR_PLANNING''\<rparr>)
   \<and> step_count (initialize_state ''q'' 400 5) = Some 0
   \<and> step_count ((initialize_state ''q'' 400 5)
        \<lparr>status := Some ''INSUFFICIENT_BUDGET_FOR_PLANNING''\<rparr>) = Some 0"
  by (simp add: planner_node_def remaining_of_def initialize_state_def PLANNER_REQUIRED_BUDGET_def)

subsection \<open>The summarizer\<close>

text \<open>
  Claim C6. \<open>summarizer_node\<close> always ends with status \<open>COMPLETED_WITH_SUMMARY\<close>, with or
  without a call. When \<open>remaining_tokens\<close> is below 400: a non-empty draft is copied into
  \<open>final_answer\<close>, a missing or empty draft gives the fixed fallback message, and in both
  cases the world and every other field, the ledger included, are unchanged.
\<close>

theorem summarizer_always_completes:
  "status (snd (summarizer_node w s)) = Some ''COMPLETED_WITH_SUMMARY''
   \<and> (remaining_of s < 400 \<longrightarrow> get_or [] (draft_answer s) \<noteq> [] \<longrightarrow>
        summarizer_node w s =
          (w, s\<lparr>final_answer := Some (get_or [] (draft_answer s)),
                status := Some ''COMPLETED_WITH_SUMMARY''\<rparr>))
   \<and> (remaining_of s < 400 \<longrightarrow> get_or [] (draft_answer s) = [] \<longrightarrow>
        summarizer_node w s =
          (w, s\<lparr>final_answer := Some ''Unable to generate an answer due to budget constraints.'',
                status := Some ''COMPLETED_WITH_SUMMARY''\<rparr>))"
proof (intro conjI)
  show "status (snd (summarizer_node w s)) = Some ''COMPLETED_WITH_SUMMARY''"
    by (simp add: summarizer_frame)
qed (simp_all add: summarizer_node_def remaining_of_def SUMMARIZER_BUDGET_def
      FALLBACK_ANSWER_def)

text \<open>
  With 300 tokens left: a draft is copied, and without a draft the fallback is used.
\<close>

theorem summarizer_always_completes_witness:
  "remaining_of ((initialize_state ''q'' 300 5)\<lparr>draft_answer := Some ''draft''\<rparr>) < 400
   \<and> get_or [] (draft_answer ((initialize_state ''q'' 300 5)\<lparr>draft_answer := Some ''draft''\<rparr>)) \<noteq> []
   \<and> summarizer_node (sample_world ''ok'') ((initialize_state ''q'' 300 5)\<lparr>draft_answer := Some ''draft''\<rparr>)
      = (sample_world ''ok'',
         (initialize_state ''q'' 300 5)
           \<lparr>draft_answer := Some ''draft'', final_answer := Some ''draft'',
            status := Some ''COMPLETED_WITH_SUMMARY''\<rparr>)
   \<and> remaining_of (initialize_state ''q'' 300 5) < 400
   \<and> get_or [] (draft_answer (initialize_state ''q'' 300 5)) = []
   \<and> summarizer_node (sample_world ''ok'') (initialize_state ''q'' 300 5)
      = (sample_world ''ok'',
         (initialize_state ''q'' 300 5)
           \<lparr>final_answer := Some ''Unable to generate an answer due to budget constraints.'',
            status := Some ''COMPLETED_WITH_SUMMARY''\<rparr>)"
proof -
  let ?a = "(initialize_state ''q'' 300 5)\<lparr>draft_answer := Some ''draft''\<rparr>"
  let ?b = "initialize_state ''q'' 300 5"
  have a1: "remaining_of ?a < 400" and a2: "get_or [] (draft_answer ?a) \<noteq> []"
    and a3: "get_or [] (draft_answer ?a) = ''draft''"
    and b1: "remaining_of ?b < 400" and b2: "get_or [] (draft_answer ?b) = []"
    by (simp_all add: remaining_of_def initialize_state_def)
  from summarizer_always_completes [of "sample_world ''ok''" ?a] a1 a2
  have a: "summarizer_node (sample_world ''ok'') ?a =
          (sample_world ''ok'', ?a\<lparr>final_answer := Some (get_or [] (draft_answer ?a)),
                status := Some ''COMPLETED_WITH_SUMMARY''\<rparr>)" by blast
  from summarizer_always_completes [of "sample_world ''ok''" ?b] b1 b2
  have b: "summarizer_node (sample_world ''ok'') ?b =
          (sample_world ''ok'', ?b\<lparr>final_answer := Some ''Unable to generate an answer due to budget constraints.'',
                status := Some ''COMPLETED_WITH_SUMMARY''\<rparr>)" by blast
  show ?thesis using a1 a2 b1 b2 a b a3 by simp
qed

subsection \<open>The retriever\<close>

lemma top_k_for_clamp: "top_k_for a = clamp \<lfloor>real_of_int a / 400\<rfloor> 1 10"
proof -
  have "\<lfloor>real_of_int a / real_of_int 400\<rfloor> = a div 400"
    by (rule floor_divide_of_int_eq)
  then have "\<lfloor>real_of_int a / 400\<rfloor> = a div 400" by simp
  then show ?thesis
    by (simp add: top_k_for_def clamp_def TOKENS_PER_CHUNK_def Let_def)
qed

lemma top_k_for_range: "1 \<le> top_k_for a \<and> top_k_for a \<le> 10"
  by (simp add: top_k_for_def Let_def)

lemma top_k_for_mono: "a \<le> b \<Longrightarrow> top_k_for a \<le> top_k_for b"
proof -
  assume "a \<le> b"
  then have "a div 400 \<le> b div 400" by (simp add: zdiv_mono1)
  then show ?thesis
    by (simp add: top_k_for_def TOKENS_PER_CHUNK_def Let_def)
qed

lemma retriever_funded_world:
  "0 < remaining_of s - 3000 \<Longrightarrow>
   fst (retriever_node w s) =
     fst (similarity_search w (get_or [] (user_query s)) (top_k_for (remaining_of s - 3000)))"
  by (simp add: retriever_node_def remaining_of_def MIN_GENERATION_BUDGET_def Let_def split_def)

text \<open>
  Claim C7. With the affordable budget \<open>remaining_tokens - 3000\<close>: when it is at most 0,
  \<open>retriever_node\<close> sets \<open>retrieved_chunks\<close> to the empty list and returns the world as
  it was (no search, no embedding call, no index query). Otherwise it makes exactly one
  call of \<open>similarity_search\<close>, asking for \<open>clamp(floor(affordable / 400), 1, 10)\<close> chunks,
  and the index, if it is queried (the query and its embedding are not empty), is asked
  for that many results. This number, \<open>top_k_for\<close> of the source, lies between 1 and 10
  and does not decrease when the affordable budget grows.
\<close>

theorem retriever_top_k:
  "(remaining_of s - 3000 \<le> 0 \<longrightarrow>
      retriever_node w s = (w, s\<lparr>retrieved_chunks := Some []\<rparr>))
   \<and> (0 < remaining_of s - 3000 \<longrightarrow>
        search_log (fst (retriever_node w s)) =
          search_log w @ [(get_or [] (user_query s),
                           clamp \<lfloor>real_of_int (remaining_of s - 3000) / 400\<rfloor> 1 10)]
        \<and> (index_log (fst (retriever_node w s)) = index_log w
           \<or> index_log (fst (retriever_node w s)) =
                index_log w @ [clamp \<lfloor>real_of_int (remaining_of s - 3000) / 400\<rfloor> 1 10]))
   \<and> top_k_for a = clamp \<lfloor>real_of_int a / 400\<rfloor> 1 10
   \<and> 1 \<le> clamp \<lfloor>real_of_int a / 400\<rfloor> 1 10
   \<and> clamp \<lfloor>real_of_int a / 400\<rfloor> 1 10 \<le> 10
   \<and> (a \<le> b \<longrightarrow> clamp \<lfloor>real_of_int a / 400\<rfloor> 1 10 \<le> clamp \<lfloor>real_of_int b / 400\<rfloor> 1 10)"
proof (intro conjI impI)
  assume "remaining_of s - 3000 \<le> 0"
  then show "retriever_node w s = (w, s\<lparr>retrieved_chunks := Some []\<rparr>)"
    by (rule retriever_unfunded)
next
  assume f: "0 < remaining_of s - 3000"
  show "search_log (fst (retriever_node w s)) =
          search_log w @ [(get_or [] (user_query s),
                           clamp \<lfloor>real_of_int (remaining_of s - 3000) / 400\<rfloor> 1 10)]"
    by (simp only: retriever_funded_world [OF f] similarity_search_logs top_k_for_clamp)
  show "index_log (fst (retriever_node w s)) = index_log w
           \<or> index_log (fst (retriever_node w s)) =
                index_log w @ [clamp \<lfloor>real_of_int (remaining_of s - 3000) / 400\<rfloor> 1 10]"
    using similarity_search_logs(3) [of w "get_or [] (user_query s)" "top_k_for (remaining_of s - 3000)"]
    by (simp only: retriever_funded_world [OF f] top_k_for_clamp)
next
  show "top_k_for a = clamp \<lfloor>real_of_int a / 400\<rfloor> 1 10"
    by (rule top_k_for_clamp)
  show "1 \<le> clamp \<lfloor>real_of_int a / 400\<rfloor> 1 10"
    using top_k_for_range [of a] by (simp only: top_k_for_clamp)
  show "clamp \<lfloor>real_of_int a / 400\<rfloor> 1 10 \<le> 10"
    using top_k_for_range [of a] by (simp only: top_k_for_clamp)
next
  assume "a \<le> b"
  then show "clamp \<lfloor>real_of_int a / 400\<rfloor> 1 10 \<le> clamp \<lfloor>real_of_int b / 400\<rfloor> 1 10"
    using top_k_for_mono [of a b] by (simp only: top_k_for_clamp)
qed

text \<open>
  With 3000 tokens nothing is searched; with 4000 the search asks for 2 chunks.
\<close>

theorem retriever_top_k_witness:
  "remaining_of (initialize_state ''q'' 3000 5) - 3000 \<le> 0
   \<and> retriever_node (sample_world ''ok'') (initialize_state ''q'' 3000 5) =
       (sample_world ''ok'', (initialize_state ''q'' 3000 5)\<lparr>retrieved_chunks := Some []\<rparr>)
   \<and> 0 < remaining_of (initialize_state ''q'' 4000 5) - 3000
   \<and> clamp \<lfloor>real_of_int (remaining_of (initialize_state ''q'' 4000 5) - 3000) / 400\<rfloor> 1 10 = 2
   \<and> search_log (fst (retriever_node (sample_world ''ok'') (initialize_state ''q'' 4000 5)))
       = [(''q'', 2)]
   \<and> (800::int) \<le> 5000
   \<and> clamp \<lfloor>real_of_int 800 / 400\<rfloor> 1 10 \<le> clamp \<lfloor>real_of_int 5000 / 400\<rfloor> 1 10"
proof -
  let ?w = "sample_world ''ok''"
  have r0: "remaining_of (initialize_state ''q'' 3000 5) - 3000 \<le> 0"
    and r1: "0 < remaining_of (initialize_state ''q'' 4000 5) - 3000"
    and r2: "remaining_of (initialize_state ''q'' 4000 5) - 3000 = 1000"
    and q: "get_or [] (user_query (initialize_state ''q'' 4000 5)) = ''q''"
    by (simp_all add: remaining_of_def initialize_state_def)
  have k: "clamp \<lfloor>real_of_int 1000 / 400\<rfloor> 1 10 = 2"
  proof -
    have "\<lfloor>real_of_int 1000 / real_of_int 400\<rfloor> = 1000 div (400::int)"
      by (rule floor_divide_of_int_eq)
    then show ?thesis by (simp add: clamp_def)
  qed
  have le: "(800::int) \<le> 5000" by simp
  have l: "search_log ?w = []" by (simp add: sample_world_def)
  note t0 = retriever_top_k [of "initialize_state ''q'' 3000 5" ?w 800 5000]
  note t1 = retriever_top_k [of "initialize_state ''q'' 4000 5" ?w 800 5000]
  from t0 r0 have a: "retriever_node ?w (initialize_state ''q'' 3000 5) =
       (?w, (initialize_state ''q'' 3000 5)\<lparr>retrieved_chunks := Some []\<rparr>)" by blast
  from t1 r1 have b: "search_log (fst (retriever_node ?w (initialize_state ''q'' 4000 5))) =
          search_log ?w @ [(get_or [] (user_query (initialize_state ''q'' 4000 5)),
             clamp \<lfloor>real_of_int (remaining_of (initialize_state ''q'' 4000 5) - 3000) / 400\<rfloor> 1 10)]"
    by blast
  from t1 le have c: "clamp \<lfloor>real_of_int 800 / 400\<rfloor> 1 10 \<le> clamp \<lfloor>real_of_int 5000 / 400\<rfloor> 1 10"
    by blast
  show ?thesis
    using r0 r1 a b c le k by (simp only: r2 q l append_Nil)
qed


text \<open>
  Claim C10. \<open>retriever_node\<close> leaves \<open>status\<close>, \<open>step_count\<close>, \<open>plan\<close>, \<open>draft_answer\<close>,
  \<open>final_answer\<close> and \<open>quality_score\<close> unchanged on every state; when the affordable
  budget \<open>remaining_tokens - 3000\<close> is at most 0 it also leaves \<open>remaining_tokens\<close>,
  \<open>tokens_used\<close> and the world unchanged.
\<close>

theorem retriever_frame_effect:
  "status (snd (retriever_node w s)) = status s
   \<and> step_count (snd (retriever_node w s)) = step_count s
   \<and> plan (snd (retriever_node w s)) = plan s
   \<and> draft_answer (snd (retriever_node w s)) = draft_answer s
   \<and> final_answer (snd (retriever_node w s)) = final_answer s
   \<and> quality_score (snd (retriever_node w s)) = quality_score s
   \<and> (remaining_of s - 3000 \<le> 0 \<longrightarrow>
        remaining_tokens (snd (retriever_node w s)) = remaining_tokens s
        \<and> tokens_used (snd (retriever_node w s)) = tokens_used s
        \<and> fst (retriever_node w s) = w)"
  using retriever_frame [of w s] by (simp add: retriever_unfunded)

text \<open>
  With 3000 tokens the ledger and the status are those of the initial state.
\<close>

theorem retriever_frame_effect_witness:
  "remaining_of (initialize_state ''q'' 3000 5) - 3000 \<le> 0
   \<and> remaining_tokens (snd (retriever_node (sample_world ''ok'') (initialize_state ''q'' 3000 5)))
       = Some 3000
   \<and> tokens_used (snd (retriever_node (sample_world ''ok'') (initialize_state ''q'' 3000 5)))
       = Some []
   \<and> status (snd (retriever_node (sample_world ''ok'') (initialize_state ''q'' 3000 5)))
       = Some ''INIT''"
proof -
  let ?s = "initialize_state ''q'' 3000 5"
  have r0: "remaining_of ?s - 3000 \<le> 0"
    and f: "remaining_tokens ?s = Some 3000" "tokens_used ?s = Some []" "status ?s = Some ''INIT''"
    by (simp_all add: remaining_of_def initialize_state_def)
  note t = retriever_frame_effect [of "sample_world ''ok''" ?s]
  from t r0 have "remaining_tokens (snd (retriever_node (sample_world ''ok'') ?s)) = remaining_tokens ?s"
    "tokens_used (snd (retriever_node (sample_world ''ok'') ?s)) = tokens_used ?s"
    "status (snd (retriever_node (sample_world ''ok'') ?s)) = status ?s"
    by blast+
  then show ?thesis using r0 f by simp
qed

subsection \<open>The critic on a reply that is not a JSON object\<close>

lemma run_graph_raises:
  "snd (run_pass w s) = Inl e \<Longrightarrow> snd (run_graph (4 + limit) w s) = (Inl e, 0)"
proof -
  assume a: "snd (run_pass w s) = Inl e"
  have "4 + limit = Suc (Suc (Suc (Suc limit)))" by simp
  then show ?thesis
    using a unfolding run_graph_def
    by (cases "run_pass w s") (simp only: run_from_pass, simp)
qed

lemma sample_score_raises:
  assumes "services w = sample_world ''0.9''"
  shows "critic_score w ''0.9'' = Inl AttributeError"
  by (simp add: critic_score_def parse_score_def sample_fields(5) [OF assms]
      sample_json_loads_def)

lemma sample_critic_raises:
  assumes "services w = sample_world ''0.9''" and "800 \<le> remaining_of s"
  shows "snd (critic_node w s) = Inl AttributeError"
proof -
  have k: "services (fst (chat_completion w req)) = sample_world ''0.9''" for req
    using assms(1) by (simp add: chat_completion_keeps)
  show ?thesis
    using assms(2)
    by (simp add: critic_node_def Let_def split_def sample_charge [OF assms(1)] str_or_def
        sample_score_raises [OF k] remaining_of_def [symmetric] CRITIC_REQUIRED_BUDGET_def)
qed

lemma sample_pass_raises:
  "snd (run_pass (sample_world ''0.9'') (initialize_state ''q'' 10000 5)) = Inl AttributeError"
proof -
  let ?s = "initialize_state ''q'' 10000 5"
  have r: "remaining_of ?s = 10000" and q: "user_query ?s = Some ''q''"
    by (simp_all add: remaining_of_def initialize_state_def)
  have sw: "services (sample_world ''0.9'') = sample_world ''0.9''"
    by (simp add: services_def sample_world_def)
  obtain w3 s3 where pass: "run_pass (sample_world ''0.9'') ?s = critic_node w3 s3"
    and s3: "services w3 = sample_world ''0.9''" "remaining_of s3 = remaining_of ?s - 305"
    using sample_before_critic [OF sw _ q] r by auto
  show ?thesis
    using sample_critic_raises [OF s3(1), of s3] s3(2) r by (simp add: pass)
qed

text \<open>
  Claim C8, at the input where the code departs from it. The critic has budget for its
  call and the service replies \<open>0.9\<close>, which \<open>json.loads\<close> parses to a float. A float has
  no \<open>get\<close>: \<open>critic_node\<close> ends with \<open>AttributeError\<close>, which its \<open>except\<close> clause does not
  list, instead of the score 0.7; and a run of the graph from the initial state, with any
  number of steps that admits the first pass, ends with that exception before
  \<open>should_continue\<close> is evaluated once.
\<close>

theorem critic_bare_number_raises:
  "remaining_tokens (initialize_state ''q'' 10000 5) = Some 10000
   \<and> json_loads (sample_world ''0.9'') ''0.9'' = Inr (JFloat (Fin 0.9))
   \<and> snd (critic_node (sample_world ''0.9'') (initialize_state ''q'' 10000 5)) = Inl AttributeError
   \<and> snd (run_graph (4 + limit) (sample_world ''0.9'') (initialize_state ''q'' 10000 5))
       = (Inl AttributeError, 0)"
proof (intro conjI)
  show "snd (run_graph (4 + limit) (sample_world ''0.9'') (initialize_state ''q'' 10000 5))
       = (Inl AttributeError, 0)"
    by (rule run_graph_raises [OF sample_pass_raises])
qed (simp_all add: critic_node_def chat_completion_def sample_world_def sample_json_loads_def
      critic_score_def parse_score_def str_or_def initialize_state_def
      CRITIC_REQUIRED_BUDGET_def Let_def)

text \<open>The same holds for every reply that parses to something other than an object, and
  an integer score beyond the range of a double raises \<open>OverflowError\<close>. What the claim
  says of the other paths holds: see \<open>critic_degraded\<close>, \<open>critic_score_fallback\<close> and
  \<open>critic_node_unit\<close>.\<close>

lemma critic_huge_int_raises:
  "json_loads w reply = Inr (JObj [(''score'', JInt (2 ^ 1024))]) \<Longrightarrow>
   critic_score w reply = Inl OverflowError"
  by (simp add: critic_score_def parse_score_def)

lemma critic_not_an_object_raises:
  "json_loads w reply = Inr v \<Longrightarrow> (\<forall>items. v \<noteq> JObj items) \<Longrightarrow>
   critic_score w reply = Inl AttributeError"
  by (cases v) (simp_all add: critic_score_def parse_score_def)


end
